theory Spec2Isabelle
  imports Main "HOL-Library.AList"
begin

section \<open>Data model of \<^verbatim>\<open>medical.py\<close>\<close>

text \<open>
  Python strings are modelled as \<^typ>\<open>string\<close>, Python's unbounded integers as
  \<^typ>\<open>int\<close>. A Python \<^verbatim>\<open>dict\<close> keeps its keys in insertion order, so a dict is
  an association list with distinct keys: \<^const>\<open>map_of\<close> is the lookup and
  \<^const>\<open>AList.update\<close> is the item assignment \<^verbatim>\<open>d[k] = v\<close> (an existing key keeps
  its place, a new key goes to the end).
\<close>

text \<open>One value of \<^verbatim>\<open>DRUG_DATABASE\<close>: the three keys every record of the table has.\<close>

record drug_record =
  interacts_with :: "string list"
  min_age :: int
  dosage :: string

text \<open>
  The module-level tables. They are the only state shared between requests; every
  operation below receives them and hands them back, so that a write to either of them
  would show in the returned state.
\<close>

record globals =
  DRUG_DATABASE :: "(string \<times> drug_record) list"
  ALTERNATIVES :: "(string \<times> string) list"

text \<open>The tables as the module body leaves them (lines 16 to 26).\<close>

definition module_init :: globals where
  "module_init =
     \<lparr>DRUG_DATABASE =
        [(''ibuprofen'',
            \<lparr>interacts_with = [''aspirin''], min_age = 12, dosage = ''200mg''\<rparr>),
         (''aspirin'',
            \<lparr>interacts_with = [''ibuprofen''], min_age = 16, dosage = ''100mg''\<rparr>),
         (''paracetamol'',
            \<lparr>interacts_with = [], min_age = 1, dosage = ''500mg''\<rparr>)],
      ALTERNATIVES =
        [(''ibuprofen'', ''paracetamol''),
         (''aspirin'', ''paracetamol'')]\<rparr>"

text \<open>
  \<^verbatim>\<open>class PrescriptionInput(BaseModel): text: str; age: int\<close>. The field
  \<^verbatim>\<open>text\<close> is \<open>text_field\<close> here, its name being a keyword of the prover.
\<close>

record PrescriptionInput =
  text_field :: string
  age :: int

text \<open>
  One labelled span of the entity extractor: of the keys the pipeline returns, the code
  reads \<^verbatim>\<open>word\<close> and \<^verbatim>\<open>entity_group\<close> only.
\<close>

record entity =
  word :: string
  entity_group :: string

text \<open>The dict \<^verbatim>\<open>analyze_prescription\<close> returns, one field for each of its four keys.\<close>

record analysis_result =
  extracted_drugs :: "string list"
  interactions :: "string list"
  dosage_info :: "(string \<times> string) list"
  alternatives :: "(string \<times> string) list"

section \<open>Builtins of the language\<close>

text \<open>
  \<^verbatim>\<open>str.lower()\<close> follows the case mappings of Unicode, which are not modelled
  here. The operations that lowercase a word take the lowercasing as a parameter
  \<open>lower\<close>, a function from strings to strings, and the properties below are proved
  for every such function.
\<close>

text \<open>Decimal digits of an integer, as an f-string prints it.\<close>

fun str_nat :: "nat \<Rightarrow> string" where
  "str_nat n =
     (if n < 10 then [char_of (48 + n)]
      else str_nat (n div 10) @ [char_of (48 + n mod 10)])"

declare str_nat.simps [simp del]

definition str_int :: "int \<Rightarrow> string" where
  "str_int i = (if i < 0 then CHR ''-'' # str_nat (nat (- i)) else str_nat (nat i))"

text \<open>
  \<^verbatim>\<open>list(set(xs))\<close> lists each element of \<^verbatim>\<open>xs\<close> once, in an order that the
  language does not fix (it follows the hashes of the strings, which change from one
  process to the next). The operations take the enumeration as a parameter
  \<open>list_set\<close>; this predicate says that it is one that \<^verbatim>\<open>list(set(xs))\<close> can
  produce on \<open>xs\<close>.
\<close>

definition set_enumeration :: "(string list \<Rightarrow> string list) \<Rightarrow> string list \<Rightarrow> bool" where
  "set_enumeration list_set xs = (distinct (list_set xs) \<and> set (list_set xs) = set xs)"

section \<open>The operations\<close>

subsection \<open>\<^verbatim>\<open>extract_drugs\<close> (lines 49 to 52)\<close>

text \<open>
  \<^verbatim>\<open>[ent['word'].lower() for ent in entities if ent['entity_group'] == 'MISC']\<close>
\<close>

definition misc_words :: "(string \<Rightarrow> string) \<Rightarrow> entity list \<Rightarrow> string list" where
  "misc_words lower entities =
     map (\<lambda>ent. lower (word ent))
       (filter (\<lambda>ent. entity_group ent = ''MISC'') entities)"

text \<open>
  The pipeline \<^verbatim>\<open>nlp\<close> is a pretrained model outside the repository: it is a
  parameter, a function from the text to its labelled spans.
\<close>

definition extract_drugs ::
  "(string \<Rightarrow> string) \<Rightarrow> (string \<Rightarrow> entity list) \<Rightarrow> (string list \<Rightarrow> string list)
     \<Rightarrow> string \<Rightarrow> globals \<Rightarrow> string list \<times> globals" where
  "extract_drugs lower nlp list_set input g =
     (let entities = nlp input;
          drugs = misc_words lower entities
      in (list_set drugs, g))"

subsection \<open>\<^verbatim>\<open>check_interactions\<close> (lines 54 to 60)\<close>

text \<open>\<^verbatim>\<open>DRUG_DATABASE.get(drug, {}).get("interacts_with", [])\<close>\<close>

definition interacts_of :: "globals \<Rightarrow> string \<Rightarrow> string list" where
  "interacts_of g drug =
     (case map_of (DRUG_DATABASE g) drug of
        None \<Rightarrow> []
      | Some info \<Rightarrow> interacts_with info)"

text \<open>\<^verbatim>\<open>f"{drug} interacts with {other}"\<close>\<close>

definition interaction_text :: "string \<Rightarrow> string \<Rightarrow> string" where
  "interaction_text drug other = drug @ '' interacts with '' @ other"

text \<open>The inner loop \<^verbatim>\<open>for other in drugs[i+1:]\<close>, with the list built so far.\<close>

fun check_inner ::
  "string \<Rightarrow> string list \<Rightarrow> string list \<Rightarrow> globals \<Rightarrow> string list \<times> globals" where
  "check_inner drug [] acc g = (acc, g)"
| "check_inner drug (other # rest) acc g =
     (if other \<in> set (interacts_of g drug)
      then check_inner drug rest (acc @ [interaction_text drug other]) g
      else check_inner drug rest acc g)"

text \<open>The outer loop \<^verbatim>\<open>for i, drug in enumerate(drugs)\<close>.\<close>

fun check_outer ::
  "string list \<Rightarrow> (nat \<times> string) list \<Rightarrow> string list \<Rightarrow> globals
     \<Rightarrow> string list \<times> globals" where
  "check_outer drugs [] acc g = (acc, g)"
| "check_outer drugs ((i, drug) # rest) acc g =
     (case check_inner drug (drop (i + 1) drugs) acc g of
        (acc', g') \<Rightarrow> check_outer drugs rest acc' g')"

definition check_interactions :: "string list \<Rightarrow> globals \<Rightarrow> string list \<times> globals" where
  "check_interactions drugs g = check_outer drugs (enumerate 0 drugs) [] g"

subsection \<open>\<^verbatim>\<open>recommend_dosage\<close> (lines 62 to 71)\<close>

text \<open>
  The loop \<^verbatim>\<open>for drug in drugs\<close> over the dict built so far. \<^verbatim>\<open>if info:\<close> is
  the test that the key was found: a record of the table is a non-empty dict.
\<close>

fun dosage_loop ::
  "string list \<Rightarrow> int \<Rightarrow> (string \<times> string) list \<Rightarrow> globals
     \<Rightarrow> (string \<times> string) list \<times> globals" where
  "dosage_loop [] a acc g = (acc, g)"
| "dosage_loop (drug # rest) a acc g =
     (case map_of (DRUG_DATABASE g) drug of
        None \<Rightarrow> dosage_loop rest a acc g
      | Some info \<Rightarrow>
          (if a \<ge> min_age info
           then dosage_loop rest a (AList.update drug (dosage info) acc) g
           else dosage_loop rest a
                  (AList.update drug
                     (''Not recommended under age '' @ str_int (min_age info)) acc) g))"

definition recommend_dosage ::
  "string list \<Rightarrow> int \<Rightarrow> globals \<Rightarrow> (string \<times> string) list \<times> globals" where
  "recommend_dosage drugs a g = dosage_loop drugs a [] g"

subsection \<open>\<^verbatim>\<open>suggest_alternatives\<close> (lines 73 to 74)\<close>

text \<open>\<^verbatim>\<open>ALTERNATIVES.get(drug, "No alternative found")\<close>\<close>

definition alternative_or_default :: "globals \<Rightarrow> string \<Rightarrow> string" where
  "alternative_or_default g drug =
     (case map_of (ALTERNATIVES g) drug of
        None \<Rightarrow> ''No alternative found''
      | Some alt \<Rightarrow> alt)"

text \<open>
  The dict comprehension
  \<^verbatim>\<open>{drug: ... for drug in drugs if drug in ALTERNATIVES}\<close>, as the loop that
  builds the dict.
\<close>

fun alternatives_loop ::
  "string list \<Rightarrow> (string \<times> string) list \<Rightarrow> globals
     \<Rightarrow> (string \<times> string) list \<times> globals" where
  "alternatives_loop [] acc g = (acc, g)"
| "alternatives_loop (drug # rest) acc g =
     (if drug \<in> fst ` set (ALTERNATIVES g)
      then alternatives_loop rest (AList.update drug (alternative_or_default g drug) acc) g
      else alternatives_loop rest acc g)"

definition suggest_alternatives ::
  "string list \<Rightarrow> globals \<Rightarrow> (string \<times> string) list \<times> globals" where
  "suggest_alternatives drugs g = alternatives_loop drugs [] g"

subsection \<open>\<^verbatim>\<open>analyze_prescription\<close> (lines 35 to 47)\<close>

definition analyze_prescription ::
  "(string \<Rightarrow> string) \<Rightarrow> (string \<Rightarrow> entity list) \<Rightarrow> (string list \<Rightarrow> string list)
     \<Rightarrow> PrescriptionInput \<Rightarrow> globals \<Rightarrow> analysis_result \<times> globals" where
  "analyze_prescription lower nlp list_set data g =
     (case extract_drugs lower nlp list_set (text_field data) g of (drugs, g1) \<Rightarrow>
      case check_interactions drugs g1 of (inters, g2) \<Rightarrow>
      case recommend_dosage drugs (age data) g2 of (dos, g3) \<Rightarrow>
      case suggest_alternatives drugs g3 of (alts, g4) \<Rightarrow>
        (\<lparr>extracted_drugs = drugs, interactions = inters,
          dosage_info = dos, alternatives = alts\<rparr>, g4))"

section \<open>Reference notions for the properties\<close>

text \<open>
  The pairs of positions \<open>i < j\<close> of a list, as pairs of its elements, in the order
  \<open>(0,1), (0,2), \<dots>, (1,2), \<dots>\<close>: the pair enumeration that the interaction check is
  compared with.
\<close>

definition ordered_pairs :: "'a list \<Rightarrow> ('a \<times> 'a) list" where
  "ordered_pairs xs =
     concat (map (\<lambda>i. map (\<lambda>j. (xs ! i, xs ! j)) [Suc i..<length xs]) [0..<length xs])"

text \<open>
  Stand-ins used to run the operations on concrete inputs. \<open>ascii_lower\<close> is a
  lowercasing function for words of ASCII characters (on which it agrees with
  \<^verbatim>\<open>str.lower()\<close>): the letters \<^verbatim>\<open>A\<close> to \<^verbatim>\<open>Z\<close>, codes 65 to 90, move up by 32 and
  every other character stays. The two extractors are deterministic: the first labels
  three spans as MISC (one drug twice, in two spellings) and one span as ORG; the second
  labels the single span paracetamol.
\<close>

definition ascii_lower_char :: "char \<Rightarrow> char" where
  "ascii_lower_char c =
     (let n = (of_char c :: nat) in if 65 \<le> n \<and> n \<le> 90 then char_of (n + 32) else c)"

definition ascii_lower :: "string \<Rightarrow> string" where
  "ascii_lower s = map ascii_lower_char s"

definition stub_nlp_pair :: "string \<Rightarrow> entity list" where
  "stub_nlp_pair input =
     [\<lparr>word = ''Ibuprofen'', entity_group = ''MISC''\<rparr>,
      \<lparr>word = ''Take'', entity_group = ''ORG''\<rparr>,
      \<lparr>word = ''aspirin'', entity_group = ''MISC''\<rparr>,
      \<lparr>word = ''ibuprofen'', entity_group = ''MISC''\<rparr>]"

definition stub_nlp_paracetamol :: "string \<Rightarrow> entity list" where
  "stub_nlp_paracetamol input = [\<lparr>word = ''paracetamol'', entity_group = ''MISC''\<rparr>]"

section \<open>The loops\<close>

lemma check_inner_snd: "snd (check_inner drug others acc g) = g"
  by (induction others arbitrary: acc) simp_all

lemma check_outer_snd: "snd (check_outer drugs es acc g) = g"
proof (induction es arbitrary: acc)
  case Nil
  show ?case by simp
next
  case (Cons e es)
  obtain i drug where e: "e = (i, drug)" by (cases e)
  obtain acc' g' where r: "check_inner drug (drop (i + 1) drugs) acc g = (acc', g')"
    by (cases "check_inner drug (drop (i + 1) drugs) acc g")
  from r have "g' = g" using check_inner_snd [of drug "drop (i + 1) drugs" acc g] by simp
  with Cons.IH [of acc'] e r show ?case by simp
qed

lemma dosage_loop_snd: "snd (dosage_loop drugs a acc g) = g"
  by (induction drugs arbitrary: acc) (simp_all split: option.splits)

lemma alternatives_loop_snd: "snd (alternatives_loop drugs acc g) = g"
  by (induction drugs arbitrary: acc) simp_all

lemma check_inner_fst:
  "fst (check_inner drug others acc g) =
     acc @ map (interaction_text drug) (filter (\<lambda>other. other \<in> set (interacts_of g drug)) others)"
  by (induction others arbitrary: acc) simp_all

lemma check_outer_fst:
  "fst (check_outer drugs es acc g) =
     acc @ concat (map (\<lambda>(i, drug). map (interaction_text drug)
            (filter (\<lambda>other. other \<in> set (interacts_of g drug)) (drop (i + 1) drugs))) es)"
proof (induction es arbitrary: acc)
  case Nil
  show ?case by simp
next
  case (Cons e es)
  obtain i drug where e: "e = (i, drug)" by (cases e)
  obtain acc' g' where r: "check_inner drug (drop (i + 1) drugs) acc g = (acc', g')"
    by (cases "check_inner drug (drop (i + 1) drugs) acc g")
  from r have g': "g' = g" using check_inner_snd [of drug "drop (i + 1) drugs" acc g] by simp
  from r have acc': "acc' = acc @ map (interaction_text drug)
      (filter (\<lambda>other. other \<in> set (interacts_of g drug)) (drop (i + 1) drugs))"
    using check_inner_fst [of drug "drop (i + 1) drugs" acc g] by simp
  show ?case using Cons.IH [of acc'] e r g' acc' by simp
qed

lemma enumerate_nth: "enumerate 0 xs = map (\<lambda>i. (i, xs ! i)) [0..<length xs]"
  by (rule nth_equalityI) (simp_all add: nth_enumerate_eq)

lemma drop_nth: "drop k xs = map (\<lambda>j. xs ! j) [k..<length xs]"
  by (rule nth_equalityI) simp_all

lemma check_interactions_fst:
  "fst (check_interactions drugs g) =
     map (\<lambda>(a, b). interaction_text a b)
       (filter (\<lambda>(a, b). b \<in> set (interacts_of g a)) (ordered_pairs drugs))"
  unfolding check_interactions_def check_outer_fst ordered_pairs_def enumerate_nth
  by (simp add: filter_concat map_concat filter_map o_def drop_nth [of "Suc _" drugs])

lemma set_ordered_pairs:
  "set (ordered_pairs xs) = {(xs ! i, xs ! j) | i j. i < j \<and> j < length xs}"
  (is "?L = ?R")
proof
  show "?L \<subseteq> ?R"
  proof
    fix p assume "p \<in> ?L"
    then obtain i j where "Suc i \<le> j" "j < length xs" "p = (xs ! i, xs ! j)"
      unfolding ordered_pairs_def by auto
    then have "i < j \<and> j < length xs \<and> p = (xs ! i, xs ! j)" by simp
    then show "p \<in> ?R" by blast
  qed
  show "?R \<subseteq> ?L"
  proof
    fix p assume "p \<in> ?R"
    then obtain i j where ij: "i < j" "j < length xs" "p = (xs ! i, xs ! j)" by blast
    then have "i \<in> set [0..<length xs]" by simp
    moreover from ij have "p \<in> set (map (\<lambda>j. (xs ! i, xs ! j)) [Suc i..<length xs])"
      by simp
    ultimately have "\<exists>i \<in> set [0..<length xs].
        p \<in> set (map (\<lambda>j. (xs ! i, xs ! j)) [Suc i..<length xs])"
      by blast
    then show "p \<in> ?L" unfolding ordered_pairs_def by simp
  qed
qed


lemma check_interactions_mem:
  "s \<in> set (fst (check_interactions drugs g)) \<longleftrightarrow>
     (\<exists>i j. i < j \<and> j < length drugs \<and> drugs ! j \<in> set (interacts_of g (drugs ! i))
        \<and> s = interaction_text (drugs ! i) (drugs ! j))"
proof -
  have "s \<in> set (fst (check_interactions drugs g)) \<longleftrightarrow>
      (\<exists>p \<in> set (ordered_pairs drugs). snd p \<in> set (interacts_of g (fst p))
         \<and> s = interaction_text (fst p) (snd p))"
    unfolding check_interactions_fst by (simp add: image_iff split_beta Bex_def)
  also have "\<dots> \<longleftrightarrow> (\<exists>i j. i < j \<and> j < length drugs
        \<and> drugs ! j \<in> set (interacts_of g (drugs ! i))
        \<and> s = interaction_text (drugs ! i) (drugs ! j))"
    unfolding set_ordered_pairs by auto
  finally show ?thesis .
qed


lemma dosage_loop_map_of:
  "map_of (fst (dosage_loop drugs a acc g)) d =
     (case (if d \<in> set drugs then map_of (DRUG_DATABASE g) d else None) of
        None \<Rightarrow> map_of acc d
      | Some info \<Rightarrow>
          Some (if a \<ge> min_age info then dosage info
                else ''Not recommended under age '' @ str_int (min_age info)))"
  by (induction drugs arbitrary: acc) (auto simp: AList.update_conv' split: option.splits)

lemma dosage_loop_keys:
  "fst ` set (fst (dosage_loop drugs a acc g)) =
     fst ` set acc \<union> {d \<in> set drugs. d \<in> fst ` set (DRUG_DATABASE g)}"
proof (induction drugs arbitrary: acc)
  case Nil
  show ?case by simp
next
  case (Cons drug rest)
  show ?case
  proof (cases "map_of (DRUG_DATABASE g) drug")
    case None
    then have "drug \<notin> fst ` set (DRUG_DATABASE g)" by (simp add: map_of_eq_None_iff)
    with None Cons.IH [of acc] show ?thesis by auto
  next
    case (Some info)
    then have "drug \<in> fst ` set (DRUG_DATABASE g)"
      by (metis map_of_eq_None_iff option.distinct(1))
    with Some Cons.IH show ?thesis by (auto simp: AList.dom_update)
  qed
qed

lemma dosage_loop_distinct:
  "distinct (map fst acc) \<Longrightarrow> distinct (map fst (fst (dosage_loop drugs a acc g)))"
  by (induction drugs arbitrary: acc) (auto simp: AList.distinct_update split: option.splits)

lemma alternatives_loop_map_of:
  "map_of (fst (alternatives_loop drugs acc g)) d =
     (if d \<in> set drugs \<and> d \<in> fst ` set (ALTERNATIVES g) then map_of (ALTERNATIVES g) d
      else map_of acc d)"
proof (induction drugs arbitrary: acc)
  case Nil
  show ?case by simp
next
  case (Cons drug rest)
  show ?case
  proof (cases "drug \<in> fst ` set (ALTERNATIVES g)")
    case False
    with Cons.IH [of acc] show ?thesis by auto
  next
    case True
    then obtain alt where alt: "map_of (ALTERNATIVES g) drug = Some alt"
      by (metis map_of_eq_None_iff not_Some_eq)
    then have "alternative_or_default g drug = alt" by (simp add: alternative_or_default_def)
    with True alt Cons.IH show ?thesis by (auto simp: AList.update_conv')
  qed
qed

lemma alternatives_loop_keys:
  "fst ` set (fst (alternatives_loop drugs acc g)) =
     fst ` set acc \<union> {d \<in> set drugs. d \<in> fst ` set (ALTERNATIVES g)}"
  by (induction drugs arbitrary: acc) (auto simp: AList.dom_update)

lemma alternatives_loop_distinct:
  "distinct (map fst acc) \<Longrightarrow> distinct (map fst (fst (alternatives_loop drugs acc g)))"
  by (induction drugs arbitrary: acc) (auto simp: AList.distinct_update)

lemma suggest_alternatives_map_of:
  "map_of (fst (suggest_alternatives drugs g)) d =
     (if d \<in> set drugs then map_of (ALTERNATIVES g) d else None)"
proof -
  have "d \<notin> fst ` set (ALTERNATIVES g) \<Longrightarrow> map_of (ALTERNATIVES g) d = None"
    by (simp add: map_of_eq_None_iff)
  then show ?thesis
    unfolding suggest_alternatives_def alternatives_loop_map_of by auto
qed

lemma suggest_alternatives_entry:
  assumes "(k, v) \<in> set (fst (suggest_alternatives drugs g))"
  shows "map_of (ALTERNATIVES g) k = Some v"
proof -
  have "distinct (map fst (fst (suggest_alternatives drugs g)))"
    unfolding suggest_alternatives_def by (rule alternatives_loop_distinct) simp
  with assms have "map_of (fst (suggest_alternatives drugs g)) k = Some v" by simp
  then show ?thesis
    unfolding suggest_alternatives_map_of by (simp split: if_splits)
qed


lemma recommend_dosage_map_of:
  "map_of (fst (recommend_dosage drugs a g)) d =
     (if d \<in> set drugs
      then (case map_of (DRUG_DATABASE g) d of
              None \<Rightarrow> None
            | Some info \<Rightarrow>
                Some (if a \<ge> min_age info then dosage info
                      else ''Not recommended under age '' @ str_int (min_age info)))
      else None)"
  unfolding recommend_dosage_def dosage_loop_map_of by (simp split: option.splits)

lemma extract_drugs_fst:
  "fst (extract_drugs lower nlp list_set input g) = list_set (misc_words lower (nlp input))"
  by (simp add: extract_drugs_def)

lemma extract_drugs_snd: "snd (extract_drugs lower nlp list_set input g) = g"
  by (simp add: extract_drugs_def)

lemma check_interactions_snd: "snd (check_interactions drugs g) = g"
  by (simp add: check_interactions_def check_outer_snd)

lemma recommend_dosage_snd: "snd (recommend_dosage drugs a g) = g"
  by (simp add: recommend_dosage_def dosage_loop_snd)

lemma suggest_alternatives_snd: "snd (suggest_alternatives drugs g) = g"
  by (simp add: suggest_alternatives_def alternatives_loop_snd)

lemma analyze_prescription_eq:
  "analyze_prescription lower nlp list_set data g =
     (\<lparr>extracted_drugs = fst (extract_drugs lower nlp list_set (text_field data) g),
       interactions = fst (check_interactions (fst (extract_drugs lower nlp list_set (text_field data) g)) g),
       dosage_info =
         fst (recommend_dosage (fst (extract_drugs lower nlp list_set (text_field data) g)) (age data) g),
       alternatives = fst (suggest_alternatives (fst (extract_drugs lower nlp list_set (text_field data) g)) g)\<rparr>,
      g)"
proof -
  obtain drugs g1 where e: "extract_drugs lower nlp list_set (text_field data) g = (drugs, g1)"
    by (cases "extract_drugs lower nlp list_set (text_field data) g")
  have g1: "g1 = g" using extract_drugs_snd [of lower nlp list_set "text_field data" g] e by simp
  obtain inters g2 where c: "check_interactions drugs g = (inters, g2)"
    by (cases "check_interactions drugs g")
  have g2: "g2 = g" using check_interactions_snd [of drugs g] c by simp
  obtain dos g3 where r: "recommend_dosage drugs (age data) g = (dos, g3)"
    by (cases "recommend_dosage drugs (age data) g")
  have g3: "g3 = g" using recommend_dosage_snd [of drugs "age data" g] r by simp
  obtain alts g4 where a: "suggest_alternatives drugs g = (alts, g4)"
    by (cases "suggest_alternatives drugs g")
  have g4: "g4 = g" using suggest_alternatives_snd [of drugs g] a by simp
  show ?thesis
    unfolding analyze_prescription_def using e c r a g1 g2 g3 g4 by simp
qed

section \<open>The tables are read only\<close>

text \<open>
  C9. No operation of the analysis service writes \<^verbatim>\<open>DRUG_DATABASE\<close> or
  \<^verbatim>\<open>ALTERNATIVES\<close>: whatever the inputs and whatever the tables hold when the call
  starts, \<^verbatim>\<open>extract_drugs\<close>, \<^verbatim>\<open>check_interactions\<close>, \<^verbatim>\<open>recommend_dosage\<close>,
  \<^verbatim>\<open>suggest_alternatives\<close> and \<^verbatim>\<open>analyze_prescription\<close> hand back the tables they
  received. Started from the startup tables, any sequence of calls therefore leaves
  them at their startup values.
\<close>

theorem no_operation_writes_tables:
  "snd (extract_drugs lower nlp list_set input g) = g
   \<and> snd (check_interactions drugs g) = g
   \<and> snd (recommend_dosage drugs a g) = g
   \<and> snd (suggest_alternatives drugs g) = g
   \<and> snd (analyze_prescription lower nlp list_set data g) = g"
  by (simp add: extract_drugs_snd check_interactions_snd recommend_dosage_snd
      suggest_alternatives_snd analyze_prescription_eq)

section \<open>Dosage recommendation\<close>

text \<open>
  C1. For every list of drug names and every integer age, the keys of the mapping that
  \<^verbatim>\<open>recommend_dosage\<close> returns are exactly the input drugs that are keys of
  \<^verbatim>\<open>DRUG_DATABASE\<close>, each key once. A drug of the input that is in the table is mapped
  to the table's dosage string when \<open>age \<ge> min_age\<close> and to
  "Not recommended under age <min_age>" when \<open>age < min_age\<close>; a drug that is not in
  the table, or not in the input, has no entry. The operation is total: no input makes
  it fail.
\<close>

theorem recommend_dosage_mapping:
  "fst ` set (fst (recommend_dosage drugs a g)) =
     {d \<in> set drugs. d \<in> fst ` set (DRUG_DATABASE g)}
   \<and> distinct (map fst (fst (recommend_dosage drugs a g)))
   \<and> map_of (fst (recommend_dosage drugs a g)) d =
     (if d \<in> set drugs
      then (case map_of (DRUG_DATABASE g) d of
              None \<Rightarrow> None
            | Some info \<Rightarrow>
                Some (if a \<ge> min_age info then dosage info
                      else ''Not recommended under age '' @ str_int (min_age info)))
      else None)"
proof -
  have "fst ` set (fst (recommend_dosage drugs a g)) =
      {d \<in> set drugs. d \<in> fst ` set (DRUG_DATABASE g)}"
    unfolding recommend_dosage_def dosage_loop_keys by simp
  moreover have "distinct (map fst (fst (recommend_dosage drugs a g)))"
    unfolding recommend_dosage_def by (rule dosage_loop_distinct) simp
  ultimately show ?thesis using recommend_dosage_map_of [of drugs a g d] by blast
qed

section \<open>Interaction check\<close>

text \<open>
  C2. For every list of drug names, \<^verbatim>\<open>check_interactions\<close> returns the strings
  "<first> interacts with <second>" of exactly the pairs of positions \<open>i < j\<close> whose
  \<open>j\<close>-th drug is in the \<open>interacts_with\<close> list of the \<open>i\<close>-th drug, in the order of
  the pair enumeration, and nothing else. The test is made from \<open>i\<close> to \<open>j\<close> only:
  whether the \<open>i\<close>-th drug is in the list of the \<open>j\<close>-th plays no part.
\<close>

theorem check_interactions_pairs:
  "fst (check_interactions drugs g) =
     map (\<lambda>(a, b). a @ '' interacts with '' @ b)
       (filter
          (\<lambda>(a, b). b \<in> set (case map_of (DRUG_DATABASE g) a of
                                None \<Rightarrow> []
                              | Some info \<Rightarrow> interacts_with info))
          (ordered_pairs drugs))
   \<and> (s \<in> set (fst (check_interactions drugs g)) \<longleftrightarrow>
       (\<exists>i j. i < j \<and> j < length drugs
          \<and> drugs ! j \<in> set (case map_of (DRUG_DATABASE g) (drugs ! i) of
                                None \<Rightarrow> []
                              | Some info \<Rightarrow> interacts_with info)
          \<and> s = drugs ! i @ '' interacts with '' @ drugs ! j))"
  using check_interactions_fst [of drugs g] check_interactions_mem [of s drugs g]
  unfolding interacts_of_def interaction_text_def by blast

text \<open>
  The check on two lists over the startup table. On ibuprofen, paracetamol, aspirin
  only the pair of positions 0 and 2 is flagged. On aspirin, paracetamol, ibuprofen,
  aspirin the pairs of positions 0, 2 and 2, 3 are flagged, in that order, each from
  the earlier drug to the later one.
\<close>

theorem check_interactions_pairs_witness:
  "fst (check_interactions [''ibuprofen'', ''paracetamol'', ''aspirin''] module_init) =
     [''ibuprofen interacts with aspirin'']
   \<and> fst (check_interactions [''aspirin'', ''paracetamol'', ''ibuprofen'', ''aspirin'']
       module_init) =
     [''aspirin interacts with ibuprofen'', ''ibuprofen interacts with aspirin'']"
proof -
  have a: "map (\<lambda>(a, b). a @ '' interacts with '' @ b)
       (filter
          (\<lambda>(a, b). b \<in> set (case map_of (DRUG_DATABASE module_init) a of
                                None \<Rightarrow> []
                              | Some info \<Rightarrow> interacts_with info))
          (ordered_pairs [''ibuprofen'', ''paracetamol'', ''aspirin''])) =
     [''ibuprofen interacts with aspirin'']"
    by code_simp
  have b: "map (\<lambda>(a, b). a @ '' interacts with '' @ b)
       (filter
          (\<lambda>(a, b). b \<in> set (case map_of (DRUG_DATABASE module_init) a of
                                None \<Rightarrow> []
                              | Some info \<Rightarrow> interacts_with info))
          (ordered_pairs [''aspirin'', ''paracetamol'', ''ibuprofen'', ''aspirin''])) =
     [''aspirin interacts with ibuprofen'', ''ibuprofen interacts with aspirin'']"
    by code_simp
  note t1 = conjunct1 [OF check_interactions_pairs
      [of "[''ibuprofen'', ''paracetamol'', ''aspirin'']" module_init]]
  note t2 = conjunct1 [OF check_interactions_pairs
      [of "[''aspirin'', ''paracetamol'', ''ibuprofen'', ''aspirin'']" module_init]]
  show ?thesis
    by (intro conjI) (rule trans [OF t1 a], rule trans [OF t2 b])
qed

text \<open>
  C3, as amended. When \<open>d2\<close> is in the \<open>interacts_with\<close> list of \<open>d1\<close>, the check on the
  list \<open>[d1, d2]\<close> returns a result containing "d1 interacts with d2". On the list in
  the other order, \<open>[d2, d1]\<close>, the result is the single statement
  "d2 interacts with d1" when \<open>d1\<close> is in the list of \<open>d2\<close> (as it is for every pair of
  the startup table), and empty otherwise.
\<close>

theorem check_interactions_two:
  assumes "d2 \<in> set (interacts_of g d1)"
  shows "interaction_text d1 d2 \<in> set (fst (check_interactions [d1, d2] g))
    \<and> fst (check_interactions [d2, d1] g) =
        (if d1 \<in> set (interacts_of g d2) then [interaction_text d2 d1] else [])"
  using assms by (simp add: check_interactions_def)

text \<open>The pair ibuprofen, aspirin of the startup table, in both orders.\<close>

theorem check_interactions_two_witness:
  "''aspirin'' \<in> set (interacts_of module_init ''ibuprofen'')
   \<and> ''ibuprofen interacts with aspirin''
       \<in> set (fst (check_interactions [''ibuprofen'', ''aspirin''] module_init))
   \<and> fst (check_interactions [''aspirin'', ''ibuprofen''] module_init) =
       [''aspirin interacts with ibuprofen'']"
proof -
  have h: "''aspirin'' \<in> set (interacts_of module_init ''ibuprofen'')" by code_simp
  have i: "''ibuprofen'' \<in> set (interacts_of module_init ''aspirin'')" by code_simp
  show ?thesis
    using h i check_interactions_two [OF h] by (simp add: interaction_text_def)
qed

text \<open>
  C3 as stated fails in the other enumeration order: aspirin is in the
  \<open>interacts_with\<close> list of ibuprofen, and on the two-element list that enumerates
  aspirin first the result does not contain "ibuprofen interacts with aspirin" (it is
  the statement in the other direction).
\<close>

theorem check_interactions_reverse_order_counterexample:
  "''aspirin'' \<in> set (interacts_of module_init ''ibuprofen'')
   \<and> ''ibuprofen interacts with aspirin''
       \<notin> set (fst (check_interactions [''aspirin'', ''ibuprofen''] module_init))"
  by code_simp

section \<open>Alternatives\<close>

text \<open>
  C5. For every list of drug names, \<^verbatim>\<open>suggest_alternatives\<close> returns a mapping with
  exactly one entry for each input drug that is a key of \<^verbatim>\<open>ALTERNATIVES\<close>, mapped to
  its listed alternative; a drug that is not in \<^verbatim>\<open>ALTERNATIVES\<close> has no entry at all.
  On ibuprofen and paracetamol, in either order, the result is the single entry
  ibuprofen: paracetamol.
\<close>

theorem suggest_alternatives_mapping:
  "map_of (fst (suggest_alternatives drugs g)) d =
     (if d \<in> set drugs then map_of (ALTERNATIVES g) d else None)
   \<and> distinct (map fst (fst (suggest_alternatives drugs g)))
   \<and> fst ` set (fst (suggest_alternatives drugs g)) =
       {d \<in> set drugs. d \<in> fst ` set (ALTERNATIVES g)}
   \<and> fst (suggest_alternatives [''ibuprofen'', ''paracetamol''] module_init) =
       [(''ibuprofen'', ''paracetamol'')]
   \<and> fst (suggest_alternatives [''paracetamol'', ''ibuprofen''] module_init) =
       [(''ibuprofen'', ''paracetamol'')]"
proof -
  have "distinct (map fst (fst (suggest_alternatives drugs g)))"
    unfolding suggest_alternatives_def by (rule alternatives_loop_distinct) simp
  moreover have "fst ` set (fst (suggest_alternatives drugs g)) =
      {d \<in> set drugs. d \<in> fst ` set (ALTERNATIVES g)}"
    unfolding suggest_alternatives_def alternatives_loop_keys by simp
  moreover have "fst (suggest_alternatives [''ibuprofen'', ''paracetamol''] module_init) =
      [(''ibuprofen'', ''paracetamol'')]"
    by code_simp
  moreover have "fst (suggest_alternatives [''paracetamol'', ''ibuprofen''] module_init) =
      [(''ibuprofen'', ''paracetamol'')]"
    by code_simp
  ultimately show ?thesis using suggest_alternatives_map_of [of drugs g d] by blast
qed

text \<open>
  C10. The default "No alternative found" of the lookup is never used: for every
  input list, every item of the returned mapping is an item of \<^verbatim>\<open>ALTERNATIVES\<close>, and
  with the startup tables the string "No alternative found" is not among the returned
  values.
\<close>

theorem default_alternative_unreachable:
  "set (fst (suggest_alternatives drugs g)) \<subseteq> set (ALTERNATIVES g)
   \<and> ''No alternative found'' \<notin> snd ` set (fst (suggest_alternatives drugs module_init))"
proof -
  have sub: "set (fst (suggest_alternatives drugs g')) \<subseteq> set (ALTERNATIVES g')" for g'
  proof
    fix p assume p: "p \<in> set (fst (suggest_alternatives drugs g'))"
    obtain k v where kv: "p = (k, v)" by (cases p)
    with p have "map_of (ALTERNATIVES g') k = Some v" by (simp add: suggest_alternatives_entry)
    then show "p \<in> set (ALTERNATIVES g')" using kv by (simp add: map_of_SomeD)
  qed
  have "''No alternative found'' \<notin> snd ` set (ALTERNATIVES module_init)" by code_simp
  with sub [of module_init]
  have "''No alternative found'' \<notin> snd ` set (fst (suggest_alternatives drugs module_init))"
    by blast
  with sub [of g] show ?thesis by simp
qed

text \<open>
  C6, as amended. The \<open>alternatives\<close> field of the result of
  \<^verbatim>\<open>analyze_prescription\<close> has an entry for exactly the extracted drugs that are keys
  of \<^verbatim>\<open>ALTERNATIVES\<close>, each mapped to its listed alternative; an extracted drug that is
  not in \<^verbatim>\<open>ALTERNATIVES\<close> has no entry.
\<close>

theorem analyze_alternatives_entries:
  "map_of (alternatives (fst (analyze_prescription lower nlp list_set data g))) d =
     (if d \<in> set (extracted_drugs (fst (analyze_prescription lower nlp list_set data g)))
      then map_of (ALTERNATIVES g) d else None)"
  by (simp add: analyze_prescription_eq suggest_alternatives_map_of)

text \<open>
  C6 as stated fails: when the extractor labels paracetamol, paracetamol is an
  extracted drug and the \<open>alternatives\<close> mapping has no entry for it.
\<close>

theorem analyze_alternatives_counterexample:
  "''paracetamol'' \<in> set (extracted_drugs (fst (analyze_prescription ascii_lower stub_nlp_paracetamol remdups
       \<lparr>text_field = ''Take paracetamol'', age = 30\<rparr> module_init)))
   \<and> map_of (alternatives (fst (analyze_prescription ascii_lower stub_nlp_paracetamol remdups
       \<lparr>text_field = ''Take paracetamol'', age = 30\<rparr> module_init))) ''paracetamol'' = None"
  by code_simp


lemma set_misc_words:
  "set (misc_words lower entities) =
     {lower (word ent) | ent. ent \<in> set entities \<and> entity_group ent = ''MISC''}"
  unfolding misc_words_def by auto

section \<open>Extraction\<close>

text \<open>
  C7. For every sequence of labelled spans that the extractor returns, and whatever
  function \<^verbatim>\<open>str.lower()\<close> is, \<^verbatim>\<open>extract_drugs\<close> returns the lowercased words of the
  spans whose \<open>entity_group\<close> is "MISC", each once however many spans produced it;
  spans with another label contribute nothing; and when no span qualifies the result is
  empty. The hypothesis is that \<^verbatim>\<open>list(set(...))\<close> enumerates the set of its argument,
  the list of lowercased MISC words.
\<close>

theorem extract_drugs_deduplicated:
  assumes "set_enumeration list_set
      (map (\<lambda>ent. lower (word ent)) (filter (\<lambda>ent. entity_group ent = ''MISC'') (nlp input)))"
  shows "set (fst (extract_drugs lower nlp list_set input g)) =
      {lower (word ent) | ent. ent \<in> set (nlp input) \<and> entity_group ent = ''MISC''}
    \<and> distinct (fst (extract_drugs lower nlp list_set input g))
    \<and> (filter (\<lambda>ent. entity_group ent = ''MISC'') (nlp input) = []
         \<longrightarrow> fst (extract_drugs lower nlp list_set input g) = [])"
proof -
  from assms have "set_enumeration list_set (misc_words lower (nlp input))"
    by (simp add: misc_words_def)
  then have d: "distinct (list_set (misc_words lower (nlp input)))"
    and s: "set (list_set (misc_words lower (nlp input))) = set (misc_words lower (nlp input))"
    by (simp_all add: set_enumeration_def)
  have "filter (\<lambda>ent. entity_group ent = ''MISC'') (nlp input) = []
      \<Longrightarrow> list_set (misc_words lower (nlp input)) = []"
    using s by (simp add: misc_words_def)
  with d s show ?thesis
    unfolding extract_drugs_fst set_misc_words by blast
qed

text \<open>
  The extraction on a sequence of four spans: two spellings of ibuprofen and aspirin
  labelled MISC, one span labelled ORG.
\<close>

theorem extract_drugs_deduplicated_witness:
  "set_enumeration remdups
     (map (\<lambda>ent. ascii_lower (word ent))
        (filter (\<lambda>ent. entity_group ent = ''MISC'')
           (stub_nlp_pair ''Take Ibuprofen, aspirin and ibuprofen'')))
   \<and> set (fst (extract_drugs ascii_lower stub_nlp_pair remdups
         ''Take Ibuprofen, aspirin and ibuprofen'' module_init)) = {''ibuprofen'', ''aspirin''}
   \<and> length (fst (extract_drugs ascii_lower stub_nlp_pair remdups
         ''Take Ibuprofen, aspirin and ibuprofen'' module_init)) = 2
   \<and> distinct (fst (extract_drugs ascii_lower stub_nlp_pair remdups
         ''Take Ibuprofen, aspirin and ibuprofen'' module_init))"
proof -
  have h: "set_enumeration remdups
      (map (\<lambda>ent. ascii_lower (word ent))
         (filter (\<lambda>ent. entity_group ent = ''MISC'')
            (stub_nlp_pair ''Take Ibuprofen, aspirin and ibuprofen'')))"
    by (simp add: set_enumeration_def)
  have e: "fst (extract_drugs ascii_lower stub_nlp_pair remdups
      ''Take Ibuprofen, aspirin and ibuprofen'' module_init) = [''aspirin'', ''ibuprofen'']"
    by code_simp
  note t = extract_drugs_deduplicated [where lower = ascii_lower and list_set = remdups
      and nlp = stub_nlp_pair and input = "''Take Ibuprofen, aspirin and ibuprofen''"
      and g = module_init, OF h]
  have d: "distinct (fst (extract_drugs ascii_lower stub_nlp_pair remdups
      ''Take Ibuprofen, aspirin and ibuprofen'' module_init))"
    by (rule conjunct1 [OF conjunct2 [OF t]])
  have s: "set (fst (extract_drugs ascii_lower stub_nlp_pair remdups
      ''Take Ibuprofen, aspirin and ibuprofen'' module_init)) = {''ibuprofen'', ''aspirin''}"
    unfolding e by (simp add: insert_commute)
  have l: "length (fst (extract_drugs ascii_lower stub_nlp_pair remdups
      ''Take Ibuprofen, aspirin and ibuprofen'' module_init)) = 2"
    unfolding e by simp
  show ?thesis
    by (intro conjI) (rule h, rule s, rule l, rule d)
qed

section \<open>End to end\<close>

text \<open>
  C8. When the extractor labels as MISC a span whose lowercased word is ibuprofen and a
  span whose lowercased word is aspirin, the analysis with age 20 and the startup
  tables returns a result whose extracted drugs contain both, whose interaction list
  holds the statement of the pair in one of the two directions (so it is not empty),
  whose dosage entries are "200mg" for ibuprofen and "100mg" for aspirin, and whose
  alternatives map both drugs to paracetamol. This holds whatever the extractor returns
  besides, whatever function \<^verbatim>\<open>str.lower()\<close> is, and in whatever order
  \<^verbatim>\<open>list(set(...))\<close> enumerates the extracted words.
\<close>

theorem analyze_ibuprofen_aspirin:
  fixes lower nlp list_set input
  defines "r \<equiv> fst (analyze_prescription lower nlp list_set
      \<lparr>text_field = input, age = 20\<rparr> module_init)"
  assumes ibu: "\<exists>ent \<in> set (nlp input).
      entity_group ent = ''MISC'' \<and> lower (word ent) = ''ibuprofen''"
    and asp: "\<exists>ent \<in> set (nlp input).
      entity_group ent = ''MISC'' \<and> lower (word ent) = ''aspirin''"
    and enum: "set_enumeration list_set (misc_words lower (nlp input))"
  shows "''ibuprofen'' \<in> set (extracted_drugs r) \<and> ''aspirin'' \<in> set (extracted_drugs r)
    \<and> (''ibuprofen interacts with aspirin'' \<in> set (interactions r)
        \<or> ''aspirin interacts with ibuprofen'' \<in> set (interactions r))
    \<and> interactions r \<noteq> []
    \<and> map_of (dosage_info r) ''ibuprofen'' = Some ''200mg''
    \<and> map_of (dosage_info r) ''aspirin'' = Some ''100mg''
    \<and> map_of (alternatives r) ''ibuprofen'' = Some ''paracetamol''
    \<and> map_of (alternatives r) ''aspirin'' = Some ''paracetamol''"
proof -
  define drugs where "drugs = list_set (misc_words lower (nlp input))"
  have sd: "set drugs = set (misc_words lower (nlp input))"
    using enum by (simp add: drugs_def set_enumeration_def)
  have i_in: "''ibuprofen'' \<in> set drugs"
    unfolding sd set_misc_words using ibu by force
  have a_in: "''aspirin'' \<in> set drugs"
    unfolding sd set_misc_words using asp by force
  have ex: "extracted_drugs r = drugs"
    by (simp add: r_def analyze_prescription_eq extract_drugs_fst drugs_def)
  have inter: "interactions r = fst (check_interactions drugs module_init)"
    by (simp add: r_def analyze_prescription_eq extract_drugs_fst drugs_def)
  have dos: "dosage_info r = fst (recommend_dosage drugs 20 module_init)"
    by (simp add: r_def analyze_prescription_eq extract_drugs_fst drugs_def)
  have alt: "alternatives r = fst (suggest_alternatives drugs module_init)"
    by (simp add: r_def analyze_prescription_eq extract_drugs_fst drugs_def)
  have ia: "''aspirin'' \<in> set (interacts_of module_init ''ibuprofen'')" by code_simp
  have ai: "''ibuprofen'' \<in> set (interacts_of module_init ''aspirin'')" by code_simp
  have ti: "interaction_text ''ibuprofen'' ''aspirin'' = ''ibuprofen interacts with aspirin''"
    by (simp add: interaction_text_def)
  have ta: "interaction_text ''aspirin'' ''ibuprofen'' = ''aspirin interacts with ibuprofen''"
    by (simp add: interaction_text_def)
  obtain i where i: "i < length drugs" "drugs ! i = ''ibuprofen''"
    using i_in by (auto simp: in_set_conv_nth)
  obtain j where j: "j < length drugs" "drugs ! j = ''aspirin''"
    using a_in by (auto simp: in_set_conv_nth)
  have "i \<noteq> j" using i j by auto
  then have "i < j \<or> j < i" by arith
  then have flagged: "''ibuprofen interacts with aspirin'' \<in> set (interactions r)
      \<or> ''aspirin interacts with ibuprofen'' \<in> set (interactions r)"
  proof
    assume "i < j"
    then have "interaction_text ''ibuprofen'' ''aspirin'' \<in> set (interactions r)"
      unfolding inter check_interactions_mem using i j ia by metis
    then show ?thesis by (simp add: ti)
  next
    assume "j < i"
    then have "interaction_text ''aspirin'' ''ibuprofen'' \<in> set (interactions r)"
      unfolding inter check_interactions_mem using i j ai by metis
    then show ?thesis by (simp add: ta)
  qed
  then have nonempty: "interactions r \<noteq> []" by auto
  have di: "map_of (DRUG_DATABASE module_init) ''ibuprofen'' =
      Some \<lparr>interacts_with = [''aspirin''], min_age = 12, dosage = ''200mg''\<rparr>"
    by (simp add: module_init_def)
  have da: "map_of (DRUG_DATABASE module_init) ''aspirin'' =
      Some \<lparr>interacts_with = [''ibuprofen''], min_age = 16, dosage = ''100mg''\<rparr>"
    by (simp add: module_init_def)
  have d1: "map_of (dosage_info r) ''ibuprofen'' = Some ''200mg''"
    unfolding dos recommend_dosage_map_of using i_in di by simp
  have d2: "map_of (dosage_info r) ''aspirin'' = Some ''100mg''"
    unfolding dos recommend_dosage_map_of using a_in da by simp
  have a1: "map_of (alternatives r) ''ibuprofen'' = Some ''paracetamol''"
    unfolding alt suggest_alternatives_map_of using i_in by (simp add: module_init_def)
  have a2: "map_of (alternatives r) ''aspirin'' = Some ''paracetamol''"
    unfolding alt suggest_alternatives_map_of using a_in by (simp add: module_init_def)
  show ?thesis using ex i_in a_in flagged nonempty d1 d2 a1 a2 by simp
qed


text \<open>The analysis of "Take ibuprofen and aspirin daily" with age 20.\<close>

theorem analyze_ibuprofen_aspirin_witness:
  "(\<exists>ent \<in> set (stub_nlp_pair ''Take ibuprofen and aspirin daily'').
      entity_group ent = ''MISC'' \<and> ascii_lower (word ent) = ''ibuprofen'')
   \<and> (\<exists>ent \<in> set (stub_nlp_pair ''Take ibuprofen and aspirin daily'').
      entity_group ent = ''MISC'' \<and> ascii_lower (word ent) = ''aspirin'')
   \<and> set_enumeration remdups (misc_words ascii_lower (stub_nlp_pair ''Take ibuprofen and aspirin daily''))
   \<and> fst (analyze_prescription ascii_lower stub_nlp_pair remdups
        \<lparr>text_field = ''Take ibuprofen and aspirin daily'', age = 20\<rparr> module_init) =
      \<lparr>extracted_drugs = [''aspirin'', ''ibuprofen''],
       interactions = [''aspirin interacts with ibuprofen''],
       dosage_info = [(''aspirin'', ''100mg''), (''ibuprofen'', ''200mg'')],
       alternatives = [(''aspirin'', ''paracetamol''), (''ibuprofen'', ''paracetamol'')]\<rparr>
   \<and> map_of (dosage_info (fst (analyze_prescription ascii_lower stub_nlp_pair remdups
        \<lparr>text_field = ''Take ibuprofen and aspirin daily'', age = 20\<rparr> module_init)))
        ''ibuprofen'' = Some ''200mg''"
proof -
  have i: "\<exists>ent \<in> set (stub_nlp_pair ''Take ibuprofen and aspirin daily'').
      entity_group ent = ''MISC'' \<and> ascii_lower (word ent) = ''ibuprofen''"
    by code_simp
  have a: "\<exists>ent \<in> set (stub_nlp_pair ''Take ibuprofen and aspirin daily'').
      entity_group ent = ''MISC'' \<and> ascii_lower (word ent) = ''aspirin''"
    by code_simp
  have e: "set_enumeration remdups
      (misc_words ascii_lower (stub_nlp_pair ''Take ibuprofen and aspirin daily''))"
    by (simp add: set_enumeration_def)
  have v: "fst (analyze_prescription ascii_lower stub_nlp_pair remdups
        \<lparr>text_field = ''Take ibuprofen and aspirin daily'', age = 20\<rparr> module_init) =
      \<lparr>extracted_drugs = [''aspirin'', ''ibuprofen''],
       interactions = [''aspirin interacts with ibuprofen''],
       dosage_info = [(''aspirin'', ''100mg''), (''ibuprofen'', ''200mg'')],
       alternatives = [(''aspirin'', ''paracetamol''), (''ibuprofen'', ''paracetamol'')]\<rparr>"
    by code_simp
  from i a e analyze_ibuprofen_aspirin [where lower = ascii_lower and nlp = stub_nlp_pair
      and list_set = remdups
      and input = "''Take ibuprofen and aspirin daily''"]
  have "map_of (dosage_info (fst (analyze_prescription ascii_lower stub_nlp_pair remdups
        \<lparr>text_field = ''Take ibuprofen and aspirin daily'', age = 20\<rparr> module_init)))
        ''ibuprofen'' = Some ''200mg''"
    by blast
  with i a e v show ?thesis by blast
qed

section \<open>Dosage recommendation on the sample inputs\<close>

text \<open>
  C4. On the single drug paracetamol with age 0 the result is the one entry
  paracetamol: "Not recommended under age 1"; on ibuprofen with age 12 it is
  ibuprofen: "200mg"; on ibuprofen with age 11 it is
  ibuprofen: "Not recommended under age 12".
\<close>

theorem recommend_dosage_samples:
  "fst (recommend_dosage [''paracetamol''] 0 module_init) =
     [(''paracetamol'', ''Not recommended under age 1'')]
   \<and> fst (recommend_dosage [''ibuprofen''] 12 module_init) = [(''ibuprofen'', ''200mg'')]
   \<and> fst (recommend_dosage [''ibuprofen''] 11 module_init) =
     [(''ibuprofen'', ''Not recommended under age 12'')]"
  by code_simp

end
